theory Spec2Isabelle
  imports Complex_Main "HOL-Library.Word"
begin

section \<open>PureVision: chroma-key background removal\<close>

text \<open>
  A shallow embedding of \<^verbatim>\<open>src/utils/imageProcessing.ts\<close> (colour distance, background
  detector, transparency compositor) and of the mask-paint handler \<^verbatim>\<open>handleMouseMove\<close>
  of the application component.

  Conventions of the embedding:
  \<^item> a JavaScript \<^verbatim>\<open>number\<close> is a \<^typ>\<open>real\<close>: the arithmetic of the source is read
    as exact arithmetic, without the rounding of IEEE doubles and without NaN or infinities;
  \<^item> an element of a \<^verbatim>\<open>Uint8ClampedArray\<close> is an \<^typ>\<open>8 word\<close>; reading it yields
    \<open>real (unat w)\<close>, storing a number goes through the conversion \<open>toUint8Clamp\<close>
    of ECMAScript (clamp to 0..255, round to nearest, ties to even);
  \<^item> the pixel buffer \<^verbatim>\<open>imageData.data\<close> is the flat list of bytes r, g, b, a, r, g, b, a, ...
\<close>

subsection \<open>Data model (types.ts)\<close>

type_synonym u8 = "8 word"

record RGBColor =
  r :: real
  g :: real
  b :: real

subsection \<open>Typed-array store and Math.round\<close>

text \<open>
  Storing a number into a \<^verbatim>\<open>Uint8ClampedArray\<close> (ECMAScript \<^verbatim>\<open>ToUint8Clamp\<close>):
  clamp to \<open>[0, 255]\<close>, take the floor \<open>f\<close>, return \<open>f\<close> below the half, \<open>f + 1\<close>
  above it, and the even one of the two at the half.
\<close>

definition roundHalfEven :: "real \<Rightarrow> int" where
  "roundHalfEven x =
     (let f = \<lfloor>x\<rfloor>
      in if x < of_int f + 1 / 2 then f
         else if of_int f + 1 / 2 < x then f + 1
         else if even f then f
         else f + 1)"

definition toUint8Clamp :: "real \<Rightarrow> u8" where
  "toUint8Clamp x = (let clamped = min (max x 0) 255 in word_of_int (roundHalfEven clamped))"

text \<open>\<^verbatim>\<open>Math.round\<close>: the nearest integer, a tie going up.\<close>

definition Math_round :: "real \<Rightarrow> real" where
  "Math_round x = of_int \<lfloor>x + 1 / 2\<rfloor>"

subsection \<open>Colour distance\<close>

definition getColorDistance :: "RGBColor \<Rightarrow> RGBColor \<Rightarrow> real" where
  "getColorDistance c1 c2 =
     sqrt ((r c1 - r c2) ^ 2 + (g c1 - g c2) ^ 2 + (b c1 - b c2) ^ 2)"

subsection \<open>Transparency compositor\<close>

text \<open>
  The branch of the loop body that chooses the byte stored at \<^verbatim>\<open>data[i + 3]\<close>, as a
  function of the computed distance, the tolerance and the value \<open>srange\<close> of \<^verbatim>\<open>smoothRange\<close>.
\<close>

definition pixelAlpha :: "real \<Rightarrow> real \<Rightarrow> real \<Rightarrow> u8" where
  "pixelAlpha distance tolerance srange =
     (if distance \<le> tolerance then toUint8Clamp 0
      else if distance \<le> tolerance + srange then
        (let alpha = ((distance - tolerance) / srange) * 255
         in toUint8Clamp (min 255 (max 0 alpha)))
      else toUint8Clamp 255)"

text \<open>
  The loop \<^verbatim>\<open>for (let i = 0; i < data.length; i += 4)\<close>: each round reads the three
  colour bytes at \<open>i\<close>, \<open>i + 1\<close>, \<open>i + 2\<close> and stores the new alpha at \<open>i + 3\<close>; the
  recursion consumes four bytes per round. When fewer than four bytes remain, the store
  at \<open>i + 3\<close> is out of range, which a typed array ignores: the rest is left as it is.
\<close>

fun processPixels :: "u8 list \<Rightarrow> RGBColor \<Rightarrow> real \<Rightarrow> real \<Rightarrow> u8 list" where
  "processPixels (pr # pg # pb # pa # rest) targetColor tolerance srange =
     (let currentPixel = \<lparr>r = real (unat pr), g = real (unat pg), b = real (unat pb)\<rparr>;
          distance = getColorDistance currentPixel targetColor
      in pr # pg # pb # pixelAlpha distance tolerance srange
           # processPixels rest targetColor tolerance srange)"
| "processPixels rest targetColor tolerance srange = rest"

text \<open>The colour that round \<open>k\<close> of the loop reads: the bytes at \<open>4 k\<close>, \<open>4 k + 1\<close>, \<open>4 k + 2\<close>.\<close>

definition pixelColor :: "u8 list \<Rightarrow> nat \<Rightarrow> RGBColor" where
  "pixelColor data k =
     \<lparr>r = real (unat (data ! (4 * k))), g = real (unat (data ! (4 * k + 1))),
      b = real (unat (data ! (4 * k + 2)))\<rparr>"

text \<open>\<^verbatim>\<open>const smoothRange = Math.max(smoothness, 1)\<close>, the divisor of the falloff.\<close>

definition smoothRange :: "real \<Rightarrow> real" where
  "smoothRange smoothness = max smoothness 1"

text \<open>
  What \<^verbatim>\<open>makeTransparent\<close> does to the buffer \<^verbatim>\<open>imageData.data\<close> between reading it
  from the canvas and writing it back. The optional last parameter is an \<open>option\<close>:
  \<open>None\<close> is the call without a smoothness argument, which takes the default 20.
\<close>

definition makeTransparent_data :: "u8 list \<Rightarrow> RGBColor \<Rightarrow> real \<Rightarrow> real option \<Rightarrow> u8 list" where
  "makeTransparent_data data targetColor tolerance smoothnessArg =
     (let smoothness = (case smoothnessArg of None \<Rightarrow> 20 | Some s \<Rightarrow> s)
      in processPixels data targetColor tolerance (smoothRange smoothness))"

text \<open>
  The canvas behind a \<^verbatim>\<open>CanvasRenderingContext2D\<close>: its size and its bitmap, the RGBA
  bytes of the pixel in column \<open>x\<close> and row \<open>y\<close>. \<^verbatim>\<open>getImageData\<close> reads a rectangle
  row by row, pixels outside the canvas reading as transparent black, and throws
  \<^verbatim>\<open>IndexSizeError\<close> for an empty rectangle; \<^verbatim>\<open>putImageData\<close> writes a buffer back
  at the origin; \<^verbatim>\<open>toDataURL\<close> is the lossless encoding of the bitmap, kept as the
  decoded pixels.
  The write-back is idealised: \<open>putImageData\<close> stores the bytes of the buffer as they are,
  while a browser may keep its bitmap with premultiplied alpha, so that the colour bytes of
  a pixel that is not opaque can come back changed (those of a pixel of alpha 0 as 0). The
  properties of the compositor below are stated on the buffer \<^verbatim>\<open>imageData.data\<close> and do not
  depend on the write-back.
\<close>

type_synonym rgba = "u8 \<times> u8 \<times> u8 \<times> u8"

record Canvas =
  cwidth :: nat
  cheight :: nat
  bitmap :: "nat \<Rightarrow> nat \<Rightarrow> rgba"

datatype DOMException = IndexSizeError

fun bytes :: "rgba \<Rightarrow> u8 list" where
  "bytes (pr, pg, pb, pa) = [pr, pg, pb, pa]"

definition pixelAt :: "Canvas \<Rightarrow> int \<Rightarrow> int \<Rightarrow> u8 list" where
  "pixelAt ctx x y =
     (if 0 \<le> x \<and> x < int (cwidth ctx) \<and> 0 \<le> y \<and> y < int (cheight ctx)
      then bytes (bitmap ctx (nat x) (nat y))
      else [0, 0, 0, 0])"

definition getImageData :: "Canvas \<Rightarrow> int \<Rightarrow> int \<Rightarrow> nat \<Rightarrow> nat \<Rightarrow> DOMException + u8 list" where
  "getImageData ctx sx sy sw sh =
     (if sw = 0 \<or> sh = 0 then Inl IndexSizeError
      else Inr (concat (map (\<lambda>j. concat (map (\<lambda>i. pixelAt ctx (sx + int i) (sy + int j)) [0..<sw]))
                  [0..<sh])))"

definition putImageData :: "Canvas \<Rightarrow> u8 list \<Rightarrow> nat \<Rightarrow> nat \<Rightarrow> Canvas" where
  "putImageData ctx data w h =
     ctx\<lparr>bitmap := (\<lambda>x y.
        if x < w \<and> y < h then
          (data ! (4 * (y * w + x)), data ! (4 * (y * w + x) + 1),
           data ! (4 * (y * w + x) + 2), data ! (4 * (y * w + x) + 3))
        else bitmap ctx x y)\<rparr>"

definition toDataURL :: "Canvas \<Rightarrow> nat \<times> nat \<times> u8 list" where
  "toDataURL ctx =
     (cwidth ctx, cheight ctx,
      concat (map (\<lambda>j. concat (map (\<lambda>i. bytes (bitmap ctx i j)) [0..<cwidth ctx]))
        [0..<cheight ctx]))"

text \<open>
  \<^verbatim>\<open>makeTransparent\<close>: read the rectangle \<open>width \<times> height\<close> at the origin, rewrite the
  alpha bytes, write the buffer back, encode the canvas.
\<close>

definition makeTransparent ::
  "Canvas \<Rightarrow> nat \<Rightarrow> nat \<Rightarrow> RGBColor \<Rightarrow> real \<Rightarrow> real option
     \<Rightarrow> DOMException + (Canvas \<times> (nat \<times> nat \<times> u8 list))" where
  "makeTransparent ctx width height targetColor tolerance smoothnessArg =
     (case getImageData ctx 0 0 width height of
        Inl e \<Rightarrow> Inl e
      | Inr data \<Rightarrow>
          (let data' = makeTransparent_data data targetColor tolerance smoothnessArg;
               ctx' = putImageData ctx data' width height
           in Inr (ctx', toDataURL ctx')))"

subsection \<open>Background detector\<close>

text \<open>An array literal whose elements may throw: the first exception aborts it.\<close>

fun collect :: "('e + 'a) list \<Rightarrow> 'e + 'a list" where
  "collect [] = Inr []"
| "collect (Inl e # xs) = Inl e"
| "collect (Inr v # xs) = (case collect xs of Inl e \<Rightarrow> Inl e | Inr vs \<Rightarrow> Inr (v # vs))"

definition detectBackgroundColor :: "Canvas \<Rightarrow> nat \<Rightarrow> nat \<Rightarrow> DOMException + RGBColor" where
  "detectBackgroundColor ctx width height =
     (case collect
        [getImageData ctx 0 0 1 1,
         getImageData ctx (int width - 1) 0 1 1,
         getImageData ctx 0 (int height - 1) 1 1,
         getImageData ctx (int width - 1) (int height - 1) 1 1,
         getImageData ctx \<lfloor>real width / 2\<rfloor> 0 1 1] of
        Inl e \<Rightarrow> Inl e
      | Inr samples \<Rightarrow>
          (case fold (\<lambda>s (rs, gs, bs).
                    (rs + real (unat (s ! 0)), gs + real (unat (s ! 1)), bs + real (unat (s ! 2))))
                  samples (0, 0, 0) of
             (rs, gs, bs) \<Rightarrow>
               Inr \<lparr>r = Math_round (rs / real (length samples)),
                    g = Math_round (gs / real (length samples)),
                    b = Math_round (bs / real (length samples))\<rparr>))"

subsection \<open>Mask overlay input: the paint handler\<close>

text \<open>
  The state that \<^verbatim>\<open>startDrawing\<close> and \<^verbatim>\<open>handleMouseMove\<close> read and write: the React state
  of the component (\<^verbatim>\<open>isEditMode\<close>, \<^verbatim>\<open>image\<close>, \<^verbatim>\<open>isDrawing\<close>, \<^verbatim>\<open>cursorPos\<close>, \<^verbatim>\<open>options\<close>),
  the three refs they dereference, and a count of the calls of \<^verbatim>\<open>processImage\<close> made. A ref
  is an \<open>option\<close>, \<open>None\<close> for \<^verbatim>\<open>null\<close>; the displayed image is known by its bounding
  rectangle, the decoded original by its size.
  A handler is a closure of one render: the state it reads is the state of that render, and
  a setter (\<^verbatim>\<open>setIsDrawing\<close>, \<^verbatim>\<open>setCursorPos\<close>) only changes the state of the next render. So
  a handler is a function from the state of its render to the state of the next one.
  The 2D context of the mask canvas is a display list: the current fill style, the current
  path, and the fills done so far, each with its colour and its path.
\<close>

record DOMRect =
  rect_left :: real
  rect_top :: real
  rect_width :: real
  rect_height :: real

record Touch =
  clientX :: real
  clientY :: real

datatype PointerEvent =
    MouseEv real real DOMRect
  | TouchEv "Touch list" DOMRect

datatype JSError = TypeError

record Arc =
  arc_x :: real
  arc_y :: real
  radius :: real
  startAngle :: real
  endAngle :: real

record Context2D =
  fillStyle :: RGBColor
  path :: "Arc list"
  fills :: "(RGBColor \<times> Arc list) list"

record MaskCanvas =
  mask_width :: nat
  mask_height :: nat
  context2d :: "Context2D option"

record CursorPos =
  cursor_x :: real
  cursor_y :: real
  visible :: bool

record ProcessingOptions =
  tolerance :: real
  smoothness :: real
  targetColor :: RGBColor
  autoDetect :: bool
  brushSize :: real

record ImageDataState =
  originalUrl :: string
  processedUrl :: "string option"
  image_width :: nat
  image_height :: nat

record AppState =
  isEditMode :: bool
  image :: "ImageDataState option"
  isDrawing :: bool
  cursorPos :: CursorPos
  options :: ProcessingOptions
  maskCanvasRef :: "MaskCanvas option"
  originalImgRef :: "(nat \<times> nat) option"
  displayImgRef :: "DOMRect option"
  processImageCalls :: nat

definition beginPath :: "Context2D \<Rightarrow> Context2D" where
  "beginPath ctx = ctx\<lparr>path := []\<rparr>"

definition arc :: "Context2D \<Rightarrow> real \<Rightarrow> real \<Rightarrow> real \<Rightarrow> real \<Rightarrow> real \<Rightarrow> Context2D" where
  "arc ctx x y rad sa ea =
     ctx\<lparr>path := path ctx @ [\<lparr>arc_x = x, arc_y = y, radius = rad, startAngle = sa, endAngle = ea\<rparr>]\<rparr>"

definition fill :: "Context2D \<Rightarrow> Context2D" where
  "fill ctx = ctx\<lparr>fills := fills ctx @ [(fillStyle ctx, path ctx)]\<rparr>"

text \<open>
  \<^verbatim>\<open>e.currentTarget.getBoundingClientRect()\<close>, and the pointer position
  \<^verbatim>\<open>'touches' in e ? e.touches[0].clientX : e.clientX\<close>: a touch event with no touch has
  no \<^verbatim>\<open>e.touches[0]\<close>, and reading its \<^verbatim>\<open>clientX\<close> throws.
\<close>

fun currentTargetRect :: "PointerEvent \<Rightarrow> DOMRect" where
  "currentTargetRect (MouseEv ex ey rect) = rect"
| "currentTargetRect (TouchEv ts rect) = rect"

fun clientPoint :: "PointerEvent \<Rightarrow> JSError + (real \<times> real)" where
  "clientPoint (MouseEv ex ey rect) = Inr (ex, ey)"
| "clientPoint (TouchEv [] rect) = Inl TypeError"
| "clientPoint (TouchEv (t # ts) rect) = Inr (clientX t, clientY t)"

definition handleMouseMove :: "AppState \<Rightarrow> PointerEvent \<Rightarrow> JSError + AppState" where
  "handleMouseMove st e =
     (if \<not> isEditMode st \<or> image st = None then Inr st
      else case displayImgRef st of
        None \<Rightarrow> Inr st
      | Some imgRect \<Rightarrow>
         (let containerRect = currentTargetRect e
          in case clientPoint e of
            Inl err \<Rightarrow> Inl err
          | Inr (cX, cY) \<Rightarrow>
             (let uiX = cX - rect_left containerRect;
                  uiY = cY - rect_top containerRect;
                  st1 = st\<lparr>cursorPos := \<lparr>cursor_x = uiX, cursor_y = uiY, visible = True\<rparr>\<rparr>
              in if isDrawing st then
                   (case maskCanvasRef st of
                      None \<Rightarrow> Inr st1
                    | Some canvas \<Rightarrow>
                       (case context2d canvas of
                          None \<Rightarrow> Inr st1
                        | Some ctx \<Rightarrow>
                           (let relX = cX - rect_left imgRect;
                                relY = cY - rect_top imgRect
                            in if relX \<ge> 0 \<and> relX \<le> rect_width imgRect
                                  \<and> relY \<ge> 0 \<and> relY \<le> rect_height imgRect then
                                 (let scaleX = real (mask_width canvas) / rect_width imgRect;
                                      scaleY = real (mask_height canvas) / rect_height imgRect;
                                      x = relX * scaleX;
                                      y = relY * scaleY;
                                      ctx1 = ctx\<lparr>fillStyle := targetColor (options st)\<rparr>;
                                      ctx2 = beginPath ctx1;
                                      ctx3 = arc ctx2 x y ((brushSize (options st) * scaleX) / 2)
                                               0 (pi * 2);
                                      ctx4 = fill ctx3
                                  in Inr (st1\<lparr>maskCanvasRef :=
                                               Some (canvas\<lparr>context2d := Some ctx4\<rparr>),
                                             processImageCalls := processImageCalls st1 + 1\<rparr>))
                               else Inr st1)))
                 else Inr st1)))"

text \<open>
  \<^verbatim>\<open>startDrawing\<close>, the mouse-down handler: after its guard it calls \<^verbatim>\<open>setIsDrawing(true)\<close>
  and then \<^verbatim>\<open>handleMouseMove(e)\<close>. Both handlers belong to the same render, so the call of
  \<^verbatim>\<open>handleMouseMove\<close> reads the \<^verbatim>\<open>isDrawing\<close> of that render, not the value just set; the
  value set shows in the state of the next render. \<^verbatim>\<open>stopDrawing\<close> is the mouse-up handler.
\<close>

definition startDrawing :: "AppState \<Rightarrow> PointerEvent \<Rightarrow> JSError + AppState" where
  "startDrawing st e =
     (if \<not> isEditMode st \<or> maskCanvasRef st = None \<or> originalImgRef st = None then Inr st
      else case handleMouseMove st e of
             Inl err \<Rightarrow> Inl err
           | Inr st' \<Rightarrow> Inr (st'\<lparr>isDrawing := True\<rparr>))"

definition stopDrawing :: "AppState \<Rightarrow> AppState" where
  "stopDrawing st = st\<lparr>isDrawing := False\<rparr>"

subsection \<open>The detector as the specification words it\<close>

text \<open>
  The five fixed sample points, and the per-channel average of the pixels there, rounded to
  the nearest integer, alpha ignored. These two definitions follow the specification; the
  detector of the source is compared with them below.
\<close>

definition spec_samplePoints :: "nat \<Rightarrow> nat \<Rightarrow> (nat \<times> nat) list" where
  "spec_samplePoints width height =
     [(0, 0), (width - 1, 0), (0, height - 1), (width - 1, height - 1), (width div 2, 0)]"

fun red :: "rgba \<Rightarrow> real" where
  "red (pr, pg, pb, pa) = real (unat pr)"

fun green :: "rgba \<Rightarrow> real" where
  "green (pr, pg, pb, pa) = real (unat pg)"

fun blue :: "rgba \<Rightarrow> real" where
  "blue (pr, pg, pb, pa) = real (unat pb)"

definition spec_average :: "Canvas \<Rightarrow> nat \<Rightarrow> nat \<Rightarrow> RGBColor" where
  "spec_average ctx width height =
     (let ps = map (\<lambda>(x, y). bitmap ctx x y) (spec_samplePoints width height)
      in \<lparr>r = of_int (round (sum_list (map red ps) / 5)),
          g = of_int (round (sum_list (map green ps) / 5)),
          b = of_int (round (sum_list (map blue ps) / 5))\<rparr>)"

subsection \<open>An example state of the paint handler\<close>

text \<open>
  A 200 by 200 mask canvas shown in a 100 by 100 rectangle whose corner is at (10, 10),
  brush size 20, white target colour, edit mode on and a stroke in progress.
\<close>

definition exRect :: DOMRect where
  "exRect = \<lparr>rect_left = 10, rect_top = 10, rect_width = 100, rect_height = 100\<rparr>"

definition exState :: AppState where
  "exState =
     \<lparr>isEditMode = True,
      image = Some \<lparr>originalUrl = ''blob:icon'', processedUrl = None,
                    image_width = 200, image_height = 200\<rparr>,
      isDrawing = True,
      cursorPos = \<lparr>cursor_x = -100, cursor_y = -100, visible = False\<rparr>,
      options = \<lparr>tolerance = 20, smoothness = 30, targetColor = \<lparr>r = 255, g = 255, b = 255\<rparr>,
                 autoDetect = True, brushSize = 20\<rparr>,
      maskCanvasRef = Some \<lparr>mask_width = 200, mask_height = 200,
          context2d = Some \<lparr>fillStyle = \<lparr>r = 0, g = 0, b = 0\<rparr>, path = [], fills = []\<rparr>\<rparr>,
      originalImgRef = Some (200, 200),
      displayImgRef = Some exRect,
      processImageCalls = 0\<rparr>"

text \<open>The same state before the stroke: the mouse button is up.\<close>

definition exIdle :: AppState where
  "exIdle = exState\<lparr>isDrawing := False\<rparr>"

text \<open>The pointer at the client position (60, 60), which is (50, 50) in the displayed image.\<close>

definition exEvent :: PointerEvent where
  "exEvent = MouseEv 60 60 \<lparr>rect_left = 0, rect_top = 0, rect_width = 120, rect_height = 120\<rparr>"

section \<open>Properties of the byte store\<close>

lemma roundHalfEven_mono: "x \<le> y \<Longrightarrow> roundHalfEven x \<le> roundHalfEven y"
proof -
  assume xy: "x \<le> y"
  have fl: "\<lfloor>x\<rfloor> \<le> \<lfloor>y\<rfloor>" using xy by (rule floor_mono)
  have lo: "\<And>z. \<lfloor>z\<rfloor> \<le> roundHalfEven z" by (simp add: roundHalfEven_def Let_def)
  have hi: "\<And>z. roundHalfEven z \<le> \<lfloor>z\<rfloor> + 1" by (simp add: roundHalfEven_def Let_def)
  show ?thesis
  proof (cases "\<lfloor>x\<rfloor> = \<lfloor>y\<rfloor>")
    case True
    then show ?thesis using xy by (auto simp: roundHalfEven_def Let_def)
  next
    case False
    then have "\<lfloor>x\<rfloor> + 1 \<le> \<lfloor>y\<rfloor>" using fl by simp
    then show ?thesis using lo[of y] hi[of x] by linarith
  qed
qed

lemma roundHalfEven_range:
  "0 \<le> x \<Longrightarrow> x \<le> 255 \<Longrightarrow> 0 \<le> roundHalfEven x \<and> roundHalfEven x \<le> 255"
proof -
  assume a: "0 \<le> x" "x \<le> 255"
  have z: "roundHalfEven 0 = 0" and m: "roundHalfEven 255 = 255"
    by (simp_all add: roundHalfEven_def)
  show ?thesis using roundHalfEven_mono[OF a(1)] roundHalfEven_mono[OF a(2)] z m by simp
qed

lemma roundHalfEven_near: "\<bar>of_int (roundHalfEven x) - x\<bar> \<le> 1 / 2"
  unfolding roundHalfEven_def Let_def
  by (auto; linarith)

lemma unat_u8: "0 \<le> n \<Longrightarrow> n \<le> 255 \<Longrightarrow> unat (word_of_int n :: u8) = nat n"
  by (simp add: unsigned_of_int take_bit_int_eq_self)

lemma unat_toUint8Clamp: "unat (toUint8Clamp x) = nat (roundHalfEven (min (max x 0) 255))"
  unfolding toUint8Clamp_def Let_def
  by (rule unat_u8) (simp_all add: roundHalfEven_range)

lemma toUint8Clamp_mono: "x \<le> y \<Longrightarrow> toUint8Clamp x \<le> toUint8Clamp y"
proof -
  assume "x \<le> y"
  then have "min (max x 0) 255 \<le> min (max y 0) 255" by simp
  then have "roundHalfEven (min (max x 0) 255) \<le> roundHalfEven (min (max y 0) 255)"
    by (rule roundHalfEven_mono)
  then show ?thesis by (simp add: word_le_nat_alt unat_toUint8Clamp nat_mono)
qed

lemma toUint8Clamp_0: "toUint8Clamp 0 = 0"
  by (simp add: toUint8Clamp_def roundHalfEven_def)

lemma toUint8Clamp_255: "toUint8Clamp 255 = 255"
  by (simp add: toUint8Clamp_def roundHalfEven_def)

lemma toUint8Clamp_near:
  assumes "0 \<le> x" "x \<le> 255"
  shows "\<bar>real (unat (toUint8Clamp x)) - x\<bar> \<le> 1 / 2"
proof -
  have c: "min (max x 0) 255 = x" using assms by simp
  have "0 \<le> roundHalfEven x" using roundHalfEven_range[OF assms] by simp
  then have "real (unat (toUint8Clamp x)) = of_int (roundHalfEven x)"
    by (simp add: unat_toUint8Clamp c)
  then show ?thesis using roundHalfEven_near[of x] by simp
qed

section \<open>Properties of the compositor loop\<close>

lemma length_processPixels [simp]: "length (processPixels data tc tol srg) = length data"
  by (induction data tc tol srg rule: processPixels.induct) (simp_all add: Let_def)

text \<open>Round \<open>k\<close> of the loop stores the alpha chosen from the colour it read.\<close>

lemma processPixels_alpha:
  "4 * k + 3 < length data \<Longrightarrow>
     processPixels data tc tol srg ! (4 * k + 3) =
       pixelAlpha (getColorDistance (pixelColor data k) tc) tol srg"
proof (induction data tc tol srg arbitrary: k rule: processPixels.induct)
  case (1 pr pg pb pa rest targetColor tolerance srange)
  show ?case
  proof (cases k)
    case 0
    then show ?thesis by (simp add: Let_def pixelColor_def)
  next
    case (Suc j)
    then have "4 * j + 3 < length rest" using "1.prems" by simp
    from "1.IH"[OF refl refl this] show ?thesis
      by (simp add: Suc Let_def pixelColor_def add.commute[of 3])
  qed
qed simp_all

text \<open>Every byte that is not at an index \<open>4 k + 3\<close> is left as it was.\<close>

lemma processPixels_other:
  "i mod 4 \<noteq> 3 \<Longrightarrow> processPixels data tc tol srg ! i = data ! i"
proof (induction data tc tol srg arbitrary: i rule: processPixels.induct)
  case (1 pr pg pb pa rest targetColor tolerance srange)
  consider "i = 0" | "i = 1" | "i = 2" | "i = 3" | "4 \<le> i" by linarith
  then show ?case
  proof cases
    case 5
    then obtain j where j: "i = j + 4" by (metis le_add_diff_inverse2)
    then have "j mod 4 \<noteq> 3" using "1.prems" by simp
    from "1.IH"[OF refl refl this] show ?thesis by (simp add: j Let_def)
  next
    case 4
    then show ?thesis using "1.prems" by simp
  qed (simp_all add: Let_def)
qed simp_all

lemma smoothRange_ge_1: "1 \<le> smoothRange s"
  by (simp add: smoothRange_def)

lemma pixelAlpha_mono:
  assumes "d1 \<le> d2" "0 < srg"
  shows "pixelAlpha d1 tol srg \<le> pixelAlpha d2 tol srg"
proof -
  define h where "h d = (if d \<le> tol then 0
      else if d \<le> tol + srg then min 255 (max 0 ((d - tol) / srg * 255)) else 255)" for d
  have p: "pixelAlpha d tol srg = toUint8Clamp (h d)" for d
    by (simp add: pixelAlpha_def h_def Let_def)
  have "(d1 - tol) / srg * 255 \<le> (d2 - tol) / srg * 255"
    using assms by (simp add: divide_right_mono)
  then have "h d1 \<le> h d2" using assms by (auto simp: h_def)
  then show ?thesis by (simp add: p toUint8Clamp_mono)
qed

text \<open>Distances used in the examples below.\<close>

lemma dist_3_4: "getColorDistance (pixelColor [3, 4, 0, 255] 0) \<lparr>r = 0, g = 0, b = 0\<rparr> = 5"
  by (simp add: getColorDistance_def pixelColor_def real_sqrt_unique)

lemma dist_30_40: "getColorDistance (pixelColor [30, 40, 0, 9] 0) \<lparr>r = 0, g = 0, b = 0\<rparr> = 50"
  by (simp add: getColorDistance_def pixelColor_def real_sqrt_unique)

lemma sqrt2_bounds: "14138 / 10000 < sqrt 2" "sqrt 2 < 14156 / 10000"
proof -
  show "14138 / 10000 < sqrt 2" by (rule real_less_rsqrt) (simp add: power2_eq_square)
  show "sqrt 2 < 14156 / 10000" by (rule real_less_lsqrt) (simp_all add: power2_eq_square)
qed

lemma roundHalfEven_sqrt2: "roundHalfEven ((sqrt 2 - 1) * 255) = 106"
proof -
  let ?v = "(sqrt 2 - 1) * 255"
  have lo: "105 + 1 / 2 < ?v" and hi: "?v < 106" using sqrt2_bounds by simp_all
  have f: "\<lfloor>?v\<rfloor> = 105" using lo hi by (intro floor_unique) simp_all
  show ?thesis unfolding roundHalfEven_def Let_def f using lo by simp
qed

text \<open>
  A pixel in the middle of the ramp: distance 1, tolerance 0, smoothness 2 give the alpha
  127.5, which the byte store rounds to the even neighbour 128.
\<close>

lemma ramp_midpoint_example:
  "makeTransparent_data [1, 0, 0, 9] \<lparr>r = 0, g = 0, b = 0\<rparr> 0 (Some 2) = [1, 0, 0, 128]"
  by (simp add: makeTransparent_data_def smoothRange_def getColorDistance_def pixelAlpha_def
        toUint8Clamp_def roundHalfEven_def)

section \<open>The claims about the compositor\<close>

text \<open>
  C1. For every pixel \<open>k\<close> of the buffer whose distance to the target colour is at most the
  tolerance, the output alpha byte is 0 and the three colour bytes are those of the input.
\<close>

theorem within_tolerance_transparent:
  assumes "4 * k + 3 < length data"
      and "getColorDistance (pixelColor data k) target \<le> tol"
    shows "makeTransparent_data data target tol sm ! (4 * k + 3) = 0
         \<and> makeTransparent_data data target tol sm ! (4 * k) = data ! (4 * k)
         \<and> makeTransparent_data data target tol sm ! (4 * k + 1) = data ! (4 * k + 1)
         \<and> makeTransparent_data data target tol sm ! (4 * k + 2) = data ! (4 * k + 2)"
  using assms
  by (simp add: makeTransparent_data_def processPixels_alpha processPixels_other pixelAlpha_def
        toUint8Clamp_0 mod_Suc)

theorem within_tolerance_transparent_witness:
  "4 * 0 + 3 < length [252, 251, 255, 200 :: u8]
   \<and> getColorDistance (pixelColor [252, 251, 255, 200] 0) \<lparr>r = 255, g = 255, b = 255\<rparr> \<le> 20
   \<and> makeTransparent_data [252, 251, 255, 200] \<lparr>r = 255, g = 255, b = 255\<rparr> 20 (Some 30)
       = [252, 251, 255, 0]"
proof -
  have d: "getColorDistance (pixelColor [252, 251, 255, 200] 0) \<lparr>r = 255, g = 255, b = 255\<rparr> = 5"
    by (simp add: getColorDistance_def pixelColor_def real_sqrt_unique)
  have l: "4 * 0 + 3 < length [252, 251, 255, 200 :: u8]" by simp
  have h: "getColorDistance (pixelColor [252, 251, 255, 200] 0) \<lparr>r = 255, g = 255, b = 255\<rparr> \<le> 20"
    by (simp add: d)
  have len: "length (makeTransparent_data [252, 251, 255, 200] \<lparr>r = 255, g = 255, b = 255\<rparr> 20
               (Some 30)) = 4"
    by (simp add: makeTransparent_data_def)
  have "makeTransparent_data [252, 251, 255, 200] \<lparr>r = 255, g = 255, b = 255\<rparr> 20 (Some 30)
          = [252, 251, 255, 0]"
    using within_tolerance_transparent[OF l h, of "Some 30"] len
    by (simp add: list_eq_iff_nth_eq nth_Cons' less_Suc_eq numeral_eq_Suc)
  then show ?thesis using l h by blast
qed

text \<open>
  C2. For every pixel whose distance \<open>d\<close> lies in the band \<open>tolerance < d \<le> tolerance + smoothness\<close>
  (smoothness a non-negative integer), the alpha assigned is
  \<open>clamp(((d - tolerance) / smoothness) * 255, 0, 255)\<close>: the byte in the buffer is that number
  as the byte array stores it, at most one half away from it, and it is exactly 255 when
  \<open>d = tolerance + smoothness\<close>.
\<close>

theorem ramp_alpha:
  assumes "4 * k + 3 < length data"
      and "d = getColorDistance (pixelColor data k) target"
      and "tol < d" and "d \<le> tol + real s"
    shows "makeTransparent_data data target tol (Some (real s)) ! (4 * k + 3)
             = toUint8Clamp (min 255 (max 0 (((d - tol) / real s) * 255)))
         \<and> \<bar>real (unat (makeTransparent_data data target tol (Some (real s)) ! (4 * k + 3)))
              - min 255 (max 0 (((d - tol) / real s) * 255))\<bar> \<le> 1 / 2
         \<and> (d = tol + real s \<longrightarrow>
              makeTransparent_data data target tol (Some (real s)) ! (4 * k + 3) = 255)"
proof -
  have s1: "1 \<le> s" using assms(3,4) by (cases s) simp_all
  then have sr: "smoothRange (real s) = real s" by (simp add: smoothRange_def)
  let ?v = "min 255 (max 0 (((d - tol) / real s) * 255))"
  have a: "makeTransparent_data data target tol (Some (real s)) ! (4 * k + 3) = toUint8Clamp ?v"
    using assms
    by (simp add: makeTransparent_data_def processPixels_alpha pixelAlpha_def sr Let_def)
  have b: "\<bar>real (unat (toUint8Clamp ?v)) - ?v\<bar> \<le> 1 / 2"
    by (rule toUint8Clamp_near) simp_all
  have c: "?v = 255" if "d = tol + real s"
  proof -
    have "(d - tol) / real s = 1" using that s1 by simp
    then show ?thesis by simp
  qed
  show ?thesis using a b c by (auto simp: toUint8Clamp_255)
qed

theorem ramp_alpha_witness:
  "4 * 0 + 3 < length [30, 40, 0, 9 :: u8]
   \<and> 20 < getColorDistance (pixelColor [30, 40, 0, 9] 0) \<lparr>r = 0, g = 0, b = 0\<rparr>
   \<and> getColorDistance (pixelColor [30, 40, 0, 9] 0) \<lparr>r = 0, g = 0, b = 0\<rparr> \<le> 20 + real 30
   \<and> getColorDistance (pixelColor [30, 40, 0, 9] 0) \<lparr>r = 0, g = 0, b = 0\<rparr> = 20 + real 30
   \<and> makeTransparent_data [30, 40, 0, 9] \<lparr>r = 0, g = 0, b = 0\<rparr> 20 (Some (real 30)) ! (4 * 0 + 3)
       = 255"
proof -
  have l: "4 * 0 + 3 < length [30, 40, 0, 9 :: u8]" by simp
  have h1: "(20::real) < 50" and h2: "(50::real) \<le> 20 + real 30" by simp_all
  show ?thesis
    using ramp_alpha[OF l dist_30_40[symmetric] h1 h2] by (simp add: dist_30_40 toUint8Clamp_255)
qed

text \<open>
  C3, as stated, fails when smoothness is 0: the band has the width \<open>max(smoothness, 1) = 1\<close>,
  so a pixel at distance \<open>sqrt 2\<close> with tolerance 1 is beyond \<open>tolerance + smoothness\<close> and
  still gets a ramp alpha, 106.
\<close>

theorem beyond_band_opaque_counterexample:
  "1 + 0 < getColorDistance (pixelColor [1, 1, 0, 255] 0) \<lparr>r = 0, g = 0, b = 0\<rparr>
   \<and> makeTransparent_data [1, 1, 0, 255] \<lparr>r = 0, g = 0, b = 0\<rparr> 1 (Some 0) ! (4 * 0 + 3) = 106
   \<and> makeTransparent_data [1, 1, 0, 255] \<lparr>r = 0, g = 0, b = 0\<rparr> 1 (Some 0) ! (4 * 0 + 3) \<noteq> 255"
proof -
  have d: "getColorDistance (pixelColor [1, 1, 0, 255] 0) \<lparr>r = 0, g = 0, b = 0\<rparr> = sqrt 2"
    by (simp add: getColorDistance_def pixelColor_def)
  have v: "min 255 (max 0 ((sqrt 2 - 1) / 1 * 255)) = (sqrt 2 - 1) * 255"
    using sqrt2_bounds by simp
  have c: "min (max ((sqrt 2 - 1) * 255) 0) 255 = (sqrt 2 - 1) * 255"
    using sqrt2_bounds by simp
  have t: "toUint8Clamp ((sqrt 2 - 1) * 255) = 106"
    unfolding toUint8Clamp_def Let_def c roundHalfEven_sqrt2 by simp
  have b1: "\<not> sqrt 2 \<le> 1" and b2: "sqrt 2 \<le> 1 + 1" using sqrt2_bounds by simp_all
  have a: "pixelAlpha (sqrt 2) 1 1 = 106"
    unfolding pixelAlpha_def Let_def v t using b1 b2 by simp
  have "makeTransparent_data [1, 1, 0, 255] \<lparr>r = 0, g = 0, b = 0\<rparr> 1 (Some 0) ! (4 * 0 + 3) = 106"
    using d a by (simp add: makeTransparent_data_def smoothRange_def pixelColor_def)
  then show ?thesis using d sqrt2_bounds by simp
qed

text \<open>
  C3, amended. For every pixel whose distance exceeds \<open>tolerance + max(smoothness, 1)\<close>, the
  output alpha byte is exactly 255, whatever alpha the pixel had before.
\<close>

theorem beyond_band_opaque:
  assumes "4 * k + 3 < length data"
      and "tol + max sm 1 < getColorDistance (pixelColor data k) target"
    shows "makeTransparent_data data target tol (Some sm) ! (4 * k + 3) = 255"
proof -
  let ?d = "getColorDistance (pixelColor data k) target"
  have "\<not> ?d \<le> tol" and "\<not> ?d \<le> tol + smoothRange sm"
    using assms(2) by (simp_all add: smoothRange_def)
  then show ?thesis using assms(1)
    by (simp add: makeTransparent_data_def processPixels_alpha pixelAlpha_def toUint8Clamp_255)
qed

theorem beyond_band_opaque_witness:
  "4 * 0 + 3 < length [255, 0, 0, 7 :: u8]
   \<and> 20 + max 30 1 < getColorDistance (pixelColor [255, 0, 0, 7] 0) \<lparr>r = 0, g = 0, b = 0\<rparr>
   \<and> makeTransparent_data [255, 0, 0, 7] \<lparr>r = 0, g = 0, b = 0\<rparr> 20 (Some 30) ! (4 * 0 + 3) = 255"
proof -
  have l: "4 * 0 + 3 < length [255, 0, 0, 7 :: u8]" by simp
  have h: "20 + max 30 1 < getColorDistance (pixelColor [255, 0, 0, 7] 0) \<lparr>r = 0, g = 0, b = 0\<rparr>"
    by (simp add: getColorDistance_def pixelColor_def)
  show ?thesis using beyond_band_opaque[OF l h] l h by blast
qed

text \<open>
  C4. The output alpha is monotonically non-decreasing in the distance: of two pixels
  processed with the same target colour, tolerance and smoothness, the one that is not
  farther from the target does not get the larger alpha, whichever branches they take.
\<close>

theorem alpha_monotone:
  assumes "4 * k1 + 3 < length data1" and "4 * k2 + 3 < length data2"
      and "getColorDistance (pixelColor data1 k1) target
             \<le> getColorDistance (pixelColor data2 k2) target"
    shows "makeTransparent_data data1 target tol sm ! (4 * k1 + 3)
             \<le> makeTransparent_data data2 target tol sm ! (4 * k2 + 3)"
proof -
  have "0 < smoothRange x" for x using smoothRange_ge_1[of x] by simp
  then show ?thesis using assms
    by (simp add: makeTransparent_data_def processPixels_alpha pixelAlpha_mono)
qed

theorem alpha_monotone_witness:
  "4 * 0 + 3 < length [3, 4, 0, 255 :: u8] \<and> 4 * 0 + 3 < length [30, 40, 0, 9 :: u8]
   \<and> getColorDistance (pixelColor [3, 4, 0, 255] 0) \<lparr>r = 0, g = 0, b = 0\<rparr>
       \<le> getColorDistance (pixelColor [30, 40, 0, 9] 0) \<lparr>r = 0, g = 0, b = 0\<rparr>
   \<and> makeTransparent_data [3, 4, 0, 255] \<lparr>r = 0, g = 0, b = 0\<rparr> 20 (Some 30) ! (4 * 0 + 3)
       \<le> makeTransparent_data [30, 40, 0, 9] \<lparr>r = 0, g = 0, b = 0\<rparr> 20 (Some 30) ! (4 * 0 + 3)"
proof -
  have l1: "4 * 0 + 3 < length [3, 4, 0, 255 :: u8]"
    and l2: "4 * 0 + 3 < length [30, 40, 0, 9 :: u8]"
    by simp_all
  have h: "getColorDistance (pixelColor [3, 4, 0, 255] 0) \<lparr>r = 0, g = 0, b = 0\<rparr>
       \<le> getColorDistance (pixelColor [30, 40, 0, 9] 0) \<lparr>r = 0, g = 0, b = 0\<rparr>"
    by (simp add: dist_3_4 dist_30_40)
  show ?thesis using alpha_monotone[OF l1 l2 h] l1 l2 h by blast
qed

text \<open>
  C5. Only alpha bytes are modified: the output buffer has the length of the input, and
  every byte that is not an alpha byte (index not of the form \<open>4 k + 3\<close>), so every r, g and
  b byte, is equal to the input byte, for all target colours, tolerances and smoothness.
\<close>

theorem only_alpha_modified:
  "length (makeTransparent_data data target tol sm) = length data
   \<and> (\<forall>i < length data. i mod 4 \<noteq> 3 \<longrightarrow> makeTransparent_data data target tol sm ! i = data ! i)"
  by (simp add: makeTransparent_data_def processPixels_other)

theorem only_alpha_modified_witness:
  "(5::nat) < length [10, 20, 30, 40, 50, 60, 70, 80 :: u8] \<and> (5::nat) mod 4 \<noteq> 3
   \<and> makeTransparent_data [10, 20, 30, 40, 50, 60, 70, 80] \<lparr>r = 0, g = 0, b = 0\<rparr> 20 (Some 30) ! 5
       = 60"
  using only_alpha_modified[of "[10, 20, 30, 40, 50, 60, 70, 80]" "\<lparr>r = 0, g = 0, b = 0\<rparr>" 20 "Some 30"]
  by simp

text \<open>
  C6. The divisor of the falloff is \<open>max(smoothness, 1)\<close>: it is at least 1 for every
  smoothness, so never zero, and a call with smoothness 0 gives the result of the call with
  smoothness 1, on the buffer and for the whole function.
\<close>

theorem smoothness_zero_as_one:
  "1 \<le> smoothRange sm \<and> 0 < smoothRange sm \<and> smoothRange 0 = smoothRange 1
   \<and> makeTransparent_data data target tol (Some 0) = makeTransparent_data data target tol (Some 1)
   \<and> makeTransparent ctx w h target tol (Some 0) = makeTransparent ctx w h target tol (Some 1)"
proof -
  have e: "makeTransparent_data xs target tol (Some 0) = makeTransparent_data xs target tol (Some 1)"
    for xs by (simp add: makeTransparent_data_def smoothRange_def)
  have m: "makeTransparent ctx w h target tol (Some 0) = makeTransparent ctx w h target tol (Some 1)"
    unfolding makeTransparent_def e ..
  show ?thesis using smoothRange_ge_1[of sm] e m by (simp add: smoothRange_def)
qed

text \<open>
  C10. A call of \<^verbatim>\<open>makeTransparent\<close> without a smoothness argument behaves exactly as the call
  with smoothness 20.
\<close>

theorem smoothness_default_20:
  "makeTransparent ctx w h target tol None = makeTransparent ctx w h target tol (Some 20)
   \<and> makeTransparent_data data target tol None = makeTransparent_data data target tol (Some 20)"
proof -
  have e: "makeTransparent_data xs target tol None = makeTransparent_data xs target tol (Some 20)"
    for xs by (simp add: makeTransparent_data_def)
  have m: "makeTransparent ctx w h target tol None = makeTransparent ctx w h target tol (Some 20)"
    unfolding makeTransparent_def e ..
  show ?thesis using e m by simp
qed

text \<open>
  For a non-empty rectangle \<^verbatim>\<open>makeTransparent\<close> returns: the canvas holds the rewritten
  buffer, and the encoded image is that of this canvas. An empty rectangle makes
  \<^verbatim>\<open>getImageData\<close> throw.
\<close>

lemma makeTransparent_returns:
  assumes "0 < width" "0 < height"
  shows "\<exists>data. getImageData ctx 0 0 width height = Inr data
           \<and> makeTransparent ctx width height tc tol sm =
               Inr (putImageData ctx (makeTransparent_data data tc tol sm) width height,
                    toDataURL (putImageData ctx (makeTransparent_data data tc tol sm) width height))"
  using assms by (simp add: makeTransparent_def getImageData_def Let_def)

lemma makeTransparent_empty:
  "width = 0 \<or> height = 0 \<Longrightarrow> makeTransparent ctx width height tc tol sm = Inl IndexSizeError"
  by (auto simp: makeTransparent_def getImageData_def)

text \<open>The buffer read by \<^verbatim>\<open>getImageData\<close> is row-major, four bytes per pixel.\<close>

lemma nth_concat_blocks:
  assumes "\<forall>xs \<in> set xss. length xs = n" "i < length xss" "j < n"
  shows "concat xss ! (i * n + j) = xss ! i ! j"
  using assms
proof (induction xss arbitrary: i)
  case Nil
  then show ?case by simp
next
  case (Cons xs xss)
  show ?case
  proof (cases i)
    case 0
    then show ?thesis using Cons.prems by (simp add: nth_append)
  next
    case (Suc i')
    have "concat xss ! (i' * n + j) = xss ! i' ! j"
      using Cons.prems Suc by (intro Cons.IH) simp_all
    then show ?thesis using Cons.prems Suc by (simp add: nth_append)
  qed
qed

lemma length_pixelAt [simp]: "length (pixelAt ctx x y) = 4"
  by (cases "bitmap ctx (nat x) (nat y)") (simp add: pixelAt_def)

lemma length_concat_blocks:
  "\<forall>xs \<in> set xss. length xs = n \<Longrightarrow> length (concat xss) = length xss * n"
  by (induction xss) simp_all

lemma getImageData_nth:
  assumes "x < w" "y < h" "c < 4"
  shows "\<exists>data. getImageData ctx 0 0 w h = Inr data \<and> length data = 4 * w * h
           \<and> data ! (4 * (y * w + x) + c) = pixelAt ctx (int x) (int y) ! c"
proof -
  let ?row = "\<lambda>j. concat (map (\<lambda>i. pixelAt ctx (0 + int i) (0 + int j)) [0..<w])"
  let ?data = "concat (map ?row [0..<h])"
  have g: "getImageData ctx 0 0 w h = Inr ?data" using assms by (simp add: getImageData_def)
  have rl: "length (?row j) = w * 4" for j
    using length_concat_blocks[of "map (\<lambda>i. pixelAt ctx (0 + int i) (0 + int j)) [0..<w]" 4] by simp
  have len: "length ?data = 4 * w * h"
    using length_concat_blocks[of "map ?row [0..<h]" "w * 4"] rl by simp
  have xc: "x * 4 + c < w * 4" using assms by simp
  have "?data ! (y * (w * 4) + (x * 4 + c)) = map ?row [0..<h] ! y ! (x * 4 + c)"
    using assms rl xc by (intro nth_concat_blocks) simp_all
  also have "\<dots> = ?row y ! (x * 4 + c)" using assms by simp
  also have "\<dots> = map (\<lambda>i. pixelAt ctx (0 + int i) (0 + int y)) [0..<w] ! x ! c"
    using assms by (intro nth_concat_blocks) simp_all
  also have "\<dots> = pixelAt ctx (int x) (int y) ! c" using assms by simp
  finally have "?data ! (y * (w * 4) + (x * 4 + c)) = pixelAt ctx (int x) (int y) ! c" .
  moreover have "y * (w * 4) + (x * 4 + c) = 4 * (y * w + x) + c" by (simp add: algebra_simps)
  ultimately show ?thesis using g len by simp
qed


lemma pixel_index_bound: "x < w \<Longrightarrow> y < h \<Longrightarrow> 4 * (y * w + x) + 3 < 4 * w * (h :: nat)"
proof -
  assume a: "x < w" "y < h"
  then have "y * w + x < y * w + w" by simp
  also have "\<dots> = (y + 1) * w" by simp
  also have "\<dots> \<le> h * w" using a by (intro mult_le_mono1) simp
  finally have "y * w + x < w * h" by (simp add: mult.commute)
  then show ?thesis by simp
qed

text \<open>
  End to end, under the idealised write-back: the pixel in column \<open>x\<close> and row \<open>y\<close> of the
  canvas after \<^verbatim>\<open>makeTransparent\<close> has the colour bytes it had and the alpha chosen from
  its distance to the target colour.
\<close>

lemma makeTransparent_pixel:
  assumes "x < w" "y < h"
      and "pixelAt ctx (int x) (int y) = [p0, p1, p2, p3]"
  shows "\<exists>ctx' url. makeTransparent ctx w h tc tol sm = Inr (ctx', url)
           \<and> bitmap ctx' x y =
               (p0, p1, p2,
                pixelAlpha (getColorDistance
                    \<lparr>r = real (unat p0), g = real (unat p1), b = real (unat p2)\<rparr> tc) tol
                  (smoothRange (case sm of None \<Rightarrow> 20 | Some s \<Rightarrow> s)))"
proof -
  let ?k = "y * w + x"
  obtain data where g: "getImageData ctx 0 0 w h = Inr data" and len: "length data = 4 * w * h"
    using getImageData_nth[OF assms(1,2), of 0 ctx] by auto
  have n: "data ! (4 * ?k + c) = [p0, p1, p2, p3] ! c" if "c < 4" for c
    using getImageData_nth[OF assms(1,2) that, of ctx] g assms(3) by simp
  have d0: "data ! (4 * ?k) = p0" using n[of 0] by simp
  have d1: "data ! (4 * ?k + 1) = p1" using n[of 1] by simp
  have d2: "data ! (4 * ?k + 2) = p2" using n[of 2] by simp
  have k: "4 * ?k + 3 < length data" using pixel_index_bound[OF assms(1,2)] len by simp
  let ?out = "makeTransparent_data data tc tol sm"
  have o3: "?out ! (4 * ?k + 3) = pixelAlpha (getColorDistance (pixelColor data ?k) tc) tol
                  (smoothRange (case sm of None \<Rightarrow> 20 | Some s \<Rightarrow> s))"
    unfolding makeTransparent_data_def Let_def by (rule processPixels_alpha[OF k])
  have o0: "?out ! (4 * ?k) = p0" and o1: "?out ! (4 * ?k + 1) = p1" and o2: "?out ! (4 * ?k + 2) = p2"
    using d0 d1 d2 by (simp_all add: makeTransparent_data_def processPixels_other mod_Suc)
  have pc: "pixelColor data ?k = \<lparr>r = real (unat p0), g = real (unat p1), b = real (unat p2)\<rparr>"
    using d0 d1 d2 by (simp add: pixelColor_def)
  have "makeTransparent ctx w h tc tol sm
          = Inr (putImageData ctx ?out w h, toDataURL (putImageData ctx ?out w h))"
    by (simp add: makeTransparent_def g Let_def)
  moreover have "bitmap (putImageData ctx ?out w h) x y =
      (p0, p1, p2, pixelAlpha (getColorDistance
                    \<lparr>r = real (unat p0), g = real (unat p1), b = real (unat p2)\<rparr> tc) tol
                  (smoothRange (case sm of None \<Rightarrow> 20 | Some s \<Rightarrow> s)))"
    using assms(1,2) o0 o1 o2 o3 pc by (simp add: putImageData_def)
  ultimately show ?thesis by blast
qed

section \<open>The background detector\<close>

lemma getImageData_1x1: "getImageData ctx x y 1 1 = Inr (pixelAt ctx x y)"
  by (simp add: getImageData_def)

lemma pixelAt_inside:
  "x < cwidth ctx \<Longrightarrow> y < cheight ctx \<Longrightarrow> pixelAt ctx (int x) (int y) = bytes (bitmap ctx x y)"
  by (simp add: pixelAt_def)

lemma sample_inside:
  "x < cwidth ctx \<Longrightarrow> y < cheight ctx \<Longrightarrow>
     getImageData ctx (int x) (int y) 1 1 = Inr (bytes (bitmap ctx x y))"
  unfolding getImageData_1x1 by (simp add: pixelAt_inside)

lemma floor_half: "\<lfloor>real w / 2\<rfloor> = int (w div 2)"
  using floor_divide_of_nat_eq[of w 2, where 'a=real] by simp

lemma bytes_nth:
  "(unsigned (bytes p ! 0) :: real) = red p"
  "(unsigned (bytes p ! Suc 0) :: real) = green p"
  "(unsigned (bytes p ! 2) :: real) = blue p"
  by (cases p; simp)+

lemma Math_round_round: "Math_round x = of_int (round x)"
  by (simp add: Math_round_def round_def)

lemma round_unsigned: "real_of_int (round (unsigned (w :: u8) :: real)) = unsigned w"
proof -
  have "real_of_int (round (real (unat w))) = real (unat w)"
    unfolding round_of_nat by simp
  then show ?thesis by simp
qed

text \<open>
  On a canvas that covers the image, all five reads are inside the canvas and the detector
  computes the average of the specification.
\<close>

lemma detect_samples:
  assumes "1 \<le> width" "1 \<le> height" "width \<le> cwidth ctx" "height \<le> cheight ctx"
  shows "detectBackgroundColor ctx width height = Inr (spec_average ctx width height)"
proof -
  have w1: "int width - 1 = int (width - 1)" and h1: "int height - 1 = int (height - 1)"
    using assms by simp_all
  have in_w: "0 < cwidth ctx" "width - 1 < cwidth ctx" "width div 2 < cwidth ctx"
    and in_h: "0 < cheight ctx" "height - 1 < cheight ctx"
    using assms by auto
  have s1: "getImageData ctx 0 0 1 1 = Inr (bytes (bitmap ctx 0 0))"
    using sample_inside[OF in_w(1) in_h(1)] by simp
  have s2: "getImageData ctx (int width - 1) 0 1 1 = Inr (bytes (bitmap ctx (width - 1) 0))"
    using sample_inside[OF in_w(2) in_h(1)] by (simp add: w1)
  have s3: "getImageData ctx 0 (int height - 1) 1 1 = Inr (bytes (bitmap ctx 0 (height - 1)))"
    using sample_inside[OF in_w(1) in_h(2)] by (simp add: h1)
  have s4: "getImageData ctx (int width - 1) (int height - 1) 1 1
              = Inr (bytes (bitmap ctx (width - 1) (height - 1)))"
    using sample_inside[OF in_w(2) in_h(2)] by (simp add: w1 h1)
  have s5: "getImageData ctx \<lfloor>real width / 2\<rfloor> 0 1 1 = Inr (bytes (bitmap ctx (width div 2) 0))"
    using sample_inside[OF in_w(3) in_h(1)] by (simp add: floor_half)
  show ?thesis
    unfolding detectBackgroundColor_def s1 s2 s3 s4 s5
    by (simp add: spec_average_def spec_samplePoints_def bytes_nth Math_round_round add.assoc)
qed

text \<open>
  C7. On an image of at least one pixel, held by a canvas that covers it, the detector
  returns the per-channel average, rounded to the nearest integer, of the pixels at
  \<open>(0,0)\<close>, \<open>(width-1,0)\<close>, \<open>(0,height-1)\<close>, \<open>(width-1,height-1)\<close>, \<open>(floor(width/2),0)\<close>, alpha
  ignored; so on an image of one uniform colour, a 1 by 1 image included, it returns that
  colour and does not fail.
\<close>

theorem detectBackgroundColor_five_samples:
  assumes "1 \<le> width" "1 \<le> height" "width \<le> cwidth ctx" "height \<le> cheight ctx"
  shows "detectBackgroundColor ctx width height = Inr (spec_average ctx width height)
       \<and> ((\<forall>x < width. \<forall>y < height. red (bitmap ctx x y) = real (unat (cr :: u8))
              \<and> green (bitmap ctx x y) = real (unat (cg :: u8))
              \<and> blue (bitmap ctx x y) = real (unat (cb :: u8)))
            \<longrightarrow> detectBackgroundColor ctx width height
                  = Inr \<lparr>r = real (unat cr), g = real (unat cg), b = real (unat cb)\<rparr>)"
proof -
  have in_w: "0 < width" "width - 1 < width" "width div 2 < width"
    and in_h: "0 < height" "height - 1 < height"
    using assms by auto
  have u: "spec_average ctx width height
             = \<lparr>r = real (unat cr), g = real (unat cg), b = real (unat cb)\<rparr>"
    if "\<forall>x < width. \<forall>y < height. red (bitmap ctx x y) = real (unat cr)
              \<and> green (bitmap ctx x y) = real (unat cg) \<and> blue (bitmap ctx x y) = real (unat cb)"
    using that in_w in_h by (simp add: spec_average_def spec_samplePoints_def round_unsigned)
  show ?thesis using detect_samples[OF assms] u by simp
qed

theorem detectBackgroundColor_five_samples_witness:
  "detectBackgroundColor \<lparr>cwidth = 1, cheight = 1, bitmap = (\<lambda>x y. (10, 20, 30, 255))\<rparr> 1 1
     = Inr \<lparr>r = 10, g = 20, b = 30\<rparr>
   \<and> detectBackgroundColor
        \<lparr>cwidth = 10, cheight = 10, bitmap = (\<lambda>x y. (200, 200, 200, 255))\<rparr> 10 10
     = Inr \<lparr>r = 200, g = 200, b = 200\<rparr>"
proof -
  have "detectBackgroundColor \<lparr>cwidth = 1, cheight = 1, bitmap = (\<lambda>x y. (10, 20, 30, 255))\<rparr> 1 1
     = Inr \<lparr>r = 10, g = 20, b = 30\<rparr>"
    using detectBackgroundColor_five_samples
            [of 1 1 "\<lparr>cwidth = 1, cheight = 1, bitmap = (\<lambda>x y. (10, 20, 30, 255))\<rparr>" 10 20 30,
             THEN conjunct2]
    by simp
  moreover
  have "detectBackgroundColor
          \<lparr>cwidth = 10, cheight = 10, bitmap = (\<lambda>x y. (200, 200, 200, 255))\<rparr> 10 10
     = Inr \<lparr>r = 200, g = 200, b = 200\<rparr>"
    using detectBackgroundColor_five_samples
            [of 10 10 "\<lparr>cwidth = 10, cheight = 10, bitmap = (\<lambda>x y. (200, 200, 200, 255))\<rparr>"
               200 200 200, THEN conjunct2]
    by simp
  ultimately show ?thesis by (rule conjI)
qed

section \<open>The paint handler\<close>

text \<open>
  C8. A pointer event whose position relative to the displayed image,
  \<open>(relX, relY) = (pointerX - imgRect.left, pointerY - imgRect.top)\<close>, is outside
  \<open>[0, width] \<times> [0, height]\<close> of that rectangle leaves the mask canvas as it was and makes no
  call of \<^verbatim>\<open>processImage\<close>: the handler returns normally and nothing is painted, at no
  clamped position either.
\<close>

theorem paint_outside_is_noop:
  assumes "displayImgRef st = Some imgRect"
      and "clientPoint e = Inr (cX, cY)"
      and "relX = cX - rect_left imgRect" and "relY = cY - rect_top imgRect"
      and "\<not> (0 \<le> relX \<and> relX \<le> rect_width imgRect \<and> 0 \<le> relY \<and> relY \<le> rect_height imgRect)"
    shows "\<exists>st'. handleMouseMove st e = Inr st'
             \<and> maskCanvasRef st' = maskCanvasRef st
             \<and> processImageCalls st' = processImageCalls st"
  using assms
  by (auto simp: handleMouseMove_def Let_def split: option.splits)

theorem paint_outside_is_noop_witness:
  "displayImgRef exState = Some exRect
   \<and> clientPoint (MouseEv 5 60 \<lparr>rect_left = 0, rect_top = 0, rect_width = 120, rect_height = 120\<rparr>)
       = Inr (5, 60)
   \<and> (-5 :: real) = 5 - rect_left exRect \<and> (50 :: real) = 60 - rect_top exRect
   \<and> \<not> (0 \<le> (-5 :: real) \<and> (-5 :: real) \<le> rect_width exRect
          \<and> 0 \<le> (50 :: real) \<and> (50 :: real) \<le> rect_height exRect)
   \<and> (\<exists>st'. handleMouseMove exState
                (MouseEv 5 60 \<lparr>rect_left = 0, rect_top = 0, rect_width = 120, rect_height = 120\<rparr>)
                = Inr st'
             \<and> maskCanvasRef st' = maskCanvasRef exState
             \<and> processImageCalls st' = processImageCalls exState)"
proof -
  have a: "displayImgRef exState = Some exRect" by (simp add: exState_def)
  have b: "clientPoint (MouseEv 5 60 \<lparr>rect_left = 0, rect_top = 0, rect_width = 120, rect_height = 120\<rparr>)
             = Inr (5, 60)"
    by simp
  have c: "(-5 :: real) = 5 - rect_left exRect" and d: "(50 :: real) = 60 - rect_top exRect"
    by (simp_all add: exRect_def)
  have f: "\<not> (0 \<le> (-5 :: real) \<and> (-5 :: real) \<le> rect_width exRect
              \<and> 0 \<le> (50 :: real) \<and> (50 :: real) \<le> rect_height exRect)"
    by simp
  show ?thesis using paint_outside_is_noop[OF a b c d f] a b c d f by blast
qed

text \<open>
  A pointer move during a stroke. In edit mode, when the render already has \<^verbatim>\<open>isDrawing\<close>,
  with the mask canvas and its context at hand, a pointer event inside the displayed
  rectangle (of positive width and height) paints one more filled disc: its colour is the current target colour, its centre is \<open>(relX * scaleX, relY * scaleY)\<close>
  with \<open>scaleX = canvas.width / imgRect.width\<close> and \<open>scaleY = canvas.height / imgRect.height\<close>,
  its radius is \<open>(brushSize * scaleX) / 2\<close>, and \<^verbatim>\<open>processImage\<close> is called once.
\<close>

lemma paint_inside_disc:
  assumes "isEditMode st" and "image st \<noteq> None" and "isDrawing st"
      and "displayImgRef st = Some imgRect"
      and "maskCanvasRef st = Some canvas" and "context2d canvas = Some ctx"
      and "clientPoint e = Inr (cX, cY)"
      and "relX = cX - rect_left imgRect" and "relY = cY - rect_top imgRect"
      and "0 \<le> relX" "relX \<le> rect_width imgRect" "0 \<le> relY" "relY \<le> rect_height imgRect"
      and "0 < rect_width imgRect" "0 < rect_height imgRect"
      and "scaleX = real (mask_width canvas) / rect_width imgRect"
      and "scaleY = real (mask_height canvas) / rect_height imgRect"
    shows "\<exists>st' canvas' ctx'. handleMouseMove st e = Inr st'
             \<and> maskCanvasRef st' = Some canvas' \<and> context2d canvas' = Some ctx'
             \<and> mask_width canvas' = mask_width canvas \<and> mask_height canvas' = mask_height canvas
             \<and> fills ctx' = fills ctx @
                  [(targetColor (options st),
                    [\<lparr>arc_x = relX * scaleX, arc_y = relY * scaleY,
                      radius = (brushSize (options st) * scaleX) / 2,
                      startAngle = 0, endAngle = pi * 2\<rparr>])]
             \<and> processImageCalls st' = processImageCalls st + 1"
  using assms
  by (simp add: handleMouseMove_def Let_def beginPath_def arc_def fill_def)

text \<open>
  The 200 by 200 raster in a 100 by 100 rectangle, brush size 20: a move over the
  display-local position (50, 50) while the button is down gives a disc at (100, 100) of
  radius 20.
\<close>

lemma paint_inside_disc_example:
  "\<exists>st' canvas' ctx'.
      handleMouseMove exState
        (MouseEv 60 60 \<lparr>rect_left = 0, rect_top = 0, rect_width = 120, rect_height = 120\<rparr>) = Inr st'
    \<and> maskCanvasRef st' = Some canvas' \<and> context2d canvas' = Some ctx'
    \<and> fills ctx' = [(\<lparr>r = 255, g = 255, b = 255\<rparr>,
                      [\<lparr>arc_x = 100, arc_y = 100, radius = 20, startAngle = 0, endAngle = pi * 2\<rparr>])]
    \<and> processImageCalls st' = 1"
proof -
  let ?cv = "\<lparr>mask_width = 200, mask_height = 200,
          context2d = Some \<lparr>fillStyle = \<lparr>r = 0, g = 0, b = 0\<rparr>, path = [], fills = []\<rparr>\<rparr>"
  let ?ctx = "\<lparr>fillStyle = \<lparr>r = 0, g = 0, b = 0\<rparr>, path = [], fills = []\<rparr>"
  let ?e = "MouseEv 60 60 \<lparr>rect_left = 0, rect_top = 0, rect_width = 120, rect_height = 120\<rparr>"
  have "\<exists>st' canvas' ctx'. handleMouseMove exState ?e = Inr st'
             \<and> maskCanvasRef st' = Some canvas' \<and> context2d canvas' = Some ctx'
             \<and> mask_width canvas' = mask_width ?cv \<and> mask_height canvas' = mask_height ?cv
             \<and> fills ctx' = fills ?ctx @
                  [(targetColor (options exState),
                    [\<lparr>arc_x = 50 * 2, arc_y = 50 * 2,
                      radius = (brushSize (options exState) * 2) / 2,
                      startAngle = 0, endAngle = pi * 2\<rparr>])]
             \<and> processImageCalls st' = processImageCalls exState + 1"
    by (rule paint_inside_disc[where imgRect = exRect and cX = 60 and cY = 60])
       (simp_all add: exState_def exRect_def)
  then show ?thesis by (auto simp: exState_def)
qed

text \<open>
  C9. The mapping from display to raster coordinates and the radius are as the claim says
  whenever a disc is painted (the lemma above), but the instance the claim gives, a click, is
  not painted. The mouse-down handler sets \<^verbatim>\<open>isDrawing\<close> and calls \<^verbatim>\<open>handleMouseMove\<close> in the
  render in which \<^verbatim>\<open>isDrawing\<close> is still false: whenever no stroke is in progress, a click
  that the handler accepts leaves the mask canvas as it was and makes no call of
  \<^verbatim>\<open>processImage\<close>; it only switches \<^verbatim>\<open>isDrawing\<close> on (when the guard of the handler passes)
  for the moves that follow.
\<close>

theorem click_paints_nothing:
  assumes "\<not> isDrawing st" and "startDrawing st e = Inr st'"
  shows "maskCanvasRef st' = maskCanvasRef st
       \<and> processImageCalls st' = processImageCalls st
       \<and> (isEditMode st \<and> maskCanvasRef st \<noteq> None \<and> originalImgRef st \<noteq> None \<longrightarrow> isDrawing st')"
  using assms
  by (auto simp: startDrawing_def handleMouseMove_def Let_def
           split: if_splits option.splits sum.splits)

text \<open>
  The click of the specification: display rectangle 100 by 100 of a 200 by 200 raster, brush
  size 20, mouse down at the display-local position (50, 50), inside the image. The handler
  returns, the mask canvas has no fill, \<^verbatim>\<open>processImage\<close> has not been called.
\<close>

theorem click_paints_nothing_witness:
  "\<not> isDrawing exIdle
   \<and> startDrawing exIdle exEvent
       = Inr (exState\<lparr>cursorPos := \<lparr>cursor_x = 60, cursor_y = 60, visible = True\<rparr>\<rparr>)
   \<and> maskCanvasRef (exState\<lparr>cursorPos := \<lparr>cursor_x = 60, cursor_y = 60, visible = True\<rparr>\<rparr>)
       = Some \<lparr>mask_width = 200, mask_height = 200,
               context2d = Some \<lparr>fillStyle = \<lparr>r = 0, g = 0, b = 0\<rparr>, path = [], fills = []\<rparr>\<rparr>
   \<and> processImageCalls (exState\<lparr>cursorPos := \<lparr>cursor_x = 60, cursor_y = 60, visible = True\<rparr>\<rparr>) = 0
   \<and> isDrawing (exState\<lparr>cursorPos := \<lparr>cursor_x = 60, cursor_y = 60, visible = True\<rparr>\<rparr>)"
proof -
  have a: "\<not> isDrawing exIdle" by (simp add: exIdle_def)
  have b: "startDrawing exIdle exEvent
       = Inr (exState\<lparr>cursorPos := \<lparr>cursor_x = 60, cursor_y = 60, visible = True\<rparr>\<rparr>)"
    by (simp add: startDrawing_def handleMouseMove_def exIdle_def exState_def exEvent_def Let_def)
  show ?thesis
    using click_paints_nothing[OF a b] a b by (simp add: exIdle_def exState_def)
qed

text \<open>The pointer of that click is inside the displayed image.\<close>

lemma click_is_inside:
  "clientPoint exEvent = Inr (60, 60)
   \<and> 60 - rect_left exRect = (50 :: real) \<and> 60 - rect_top exRect = (50 :: real)
   \<and> (0 :: real) \<le> 50 \<and> 50 \<le> rect_width exRect \<and> 50 \<le> rect_height exRect"
  by (simp add: exEvent_def exRect_def)

end
